theory Spec2Isabelle
  imports Main
begin

section \<open>The blog application: tables, request context and route handlers\<close>

text \<open>
  A shallow embedding of \<^verbatim>\<open>app.py\<close> and \<^verbatim>\<open>forms.py\<close>. The three mapped classes are
  records, a table is the list of its rows in primary-key order, and a route handler is
  a function from the application state (database, current identity, flashed messages)
  and the request to an outcome and the state afterwards. A raised exception is the
  \<open>Inl\<close> of the outcome; the state comes back in both cases, because a handler
  that raises after \<^verbatim>\<open>db.session.commit()\<close> has already changed the database.
\<close>

subsection \<open>Mapped classes (\<^verbatim>\<open>app.py\<close>, lines 42-74)\<close>

text \<open>
  Columns keep their names behind the class name: \<^verbatim>\<open>Comment.comment_author_id\<close> is
  \<open>Comment_comment_author_id\<close>. A relationship attribute (\<^verbatim>\<open>author\<close>,
  \<^verbatim>\<open>comment_author\<close>, \<^verbatim>\<open>parent_post\<close>) is stored through its foreign-key column,
  which is what the model keeps. \<^verbatim>\<open>parent_post_id\<close> is annotated \<^verbatim>\<open>Mapped[str]\<close> but
  holds the integer key of the post it refers to and is compared with it as such.
\<close>

record User =
  User_id :: int
  User_email :: string
  User_password :: string
  User_name :: string

record BlogPost =
  BlogPost_id :: int
  BlogPost_title :: string
  BlogPost_subtitle :: string
  BlogPost_date :: string
  BlogPost_body :: string
  BlogPost_author_id :: int
  BlogPost_img_url :: string

record Comment =
  Comment_id :: int
  Comment_text :: string
  Comment_comment_author_id :: int
  Comment_parent_post_id :: int

record database =
  users :: "User list"
  blog_posts :: "BlogPost list"
  comments :: "Comment list"

subsection \<open>Exceptions, responses, identities\<close>

text \<open>
  \<^verbatim>\<open>abort(code)\<close> raises the HTTP exception of that status code; \<open>AttributeError\<close>
  and \<open>TypeError\<close> are Python's own; \<open>IntegrityError\<close> is the database refusing a
  statement that breaks a declared constraint.
\<close>

datatype error = HTTPException nat | AttributeError | TypeError | IntegrityError

datatype url = url_for_login | url_for_get_all_posts | url_for_show_post int

text \<open>A rendered template is kept as its file name and the \<^verbatim>\<open>logged_in\<close> flag.\<close>

datatype response = Redirect url | render_template string bool

text \<open>
  \<^verbatim>\<open>current_user\<close> is either the \<^verbatim>\<open>User\<close> row that the login manager loaded for
  the session, or Flask-Login's \<^verbatim>\<open>AnonymousUserMixin\<close>, which has
  \<^verbatim>\<open>is_authenticated\<close> but no attribute \<^verbatim>\<open>id\<close>.
\<close>

datatype identity = AnonymousUserMixin | LoggedIn User

record app =
  db :: database
  current_user :: identity
  flashes :: "string list"

type_synonym outcome = "(error + response) \<times> app"

definition abort :: "nat \<Rightarrow> error" where
  "abort code = HTTPException code"

definition is_authenticated :: "identity \<Rightarrow> bool" where
  "is_authenticated cu = (case cu of AnonymousUserMixin \<Rightarrow> False | LoggedIn u \<Rightarrow> True)"

text \<open>The attribute access \<^verbatim>\<open>current_user.id\<close>.\<close>

definition current_user_id :: "identity \<Rightarrow> error + int" where
  "current_user_id cu =
     (case cu of AnonymousUserMixin \<Rightarrow> Inl AttributeError | LoggedIn u \<Rightarrow> Inr (User_id u))"

definition flash :: "string \<Rightarrow> app \<Rightarrow> app" where
  "flash message st = st\<lparr>flashes := flashes st @ [message]\<rparr>"

text \<open>
  \<^verbatim>\<open>flask.redirect(location, code=302, Response=None)\<close>: the second argument lists the
  names of the keyword arguments of the call; any other keyword is a \<open>TypeError\<close>.
\<close>

definition redirect :: "url \<Rightarrow> string list \<Rightarrow> error + response" where
  "redirect location kwargs =
     (if list_all (\<lambda>k. k = ''code'' \<or> k = ''Response'') kwargs
      then Inr (Redirect location) else Inl TypeError)"

subsection \<open>Queries\<close>

text \<open>\<^verbatim>\<open>Result.scalar()\<close>: the first row of the result, or \<^verbatim>\<open>None\<close>.\<close>

definition scalar :: "'a list \<Rightarrow> 'a option" where
  "scalar rows = (case rows of [] \<Rightarrow> None | r # rest \<Rightarrow> Some r)"

text \<open>\<^verbatim>\<open>db.get_or_404(Model, key)\<close>: the row with that primary key, or \<^verbatim>\<open>abort(404)\<close>.\<close>

definition get_or_404 :: "'a list \<Rightarrow> ('a \<Rightarrow> int) \<Rightarrow> int \<Rightarrow> error + 'a" where
  "get_or_404 rows pk key =
     (case find (\<lambda>r. pk r = key) rows of None \<Rightarrow> Inl (abort 404) | Some r \<Rightarrow> Inr r)"

text \<open>The key that an insert gives a new row: one more than the largest key in use.\<close>

definition next_id :: "int list \<Rightarrow> int" where
  "next_id ids = fold max ids 0 + 1"

subsection \<open>Commits\<close>

text \<open>
  \<^verbatim>\<open>db.session.add(row)\<close> or \<^verbatim>\<open>db.session.delete(row)\<close> followed by
  \<^verbatim>\<open>db.session.commit()\<close>: either the statement is applied, or the database refuses it
  and the transaction is rolled back, leaving every table as it was. The constraints are
  those that the mapped classes declare:
  \<^item> \<^verbatim>\<open>User.email\<close> and \<^verbatim>\<open>BlogPost.title\<close> are \<^verbatim>\<open>unique=True\<close>;
  \<^item> \<^verbatim>\<open>Comment.parent_post_id\<close> is a \<^verbatim>\<open>mapped_column\<close> annotated with a type that is
    not \<^verbatim>\<open>Optional\<close>, hence \<^verbatim>\<open>NOT NULL\<close>. \<^verbatim>\<open>BlogPost.comments\<close> is a
    \<^verbatim>\<open>relationship\<close> with no delete cascade, so deleting a post makes the session blank
    the \<^verbatim>\<open>parent_post_id\<close> of each of its comments in the same flush, which that
    constraint refuses. A post is therefore deleted only when no comment refers to it.
  Deleting a comment touches no other row: both its relationships point to its parents.
\<close>

definition commit_add_User :: "database \<Rightarrow> User \<Rightarrow> error + database" where
  "commit_add_User d new_user =
     (if list_ex (\<lambda>u. User_email u = User_email new_user) (users d) then Inl IntegrityError
      else Inr (d\<lparr>users := users d @ [new_user]\<rparr>))"

definition commit_add_BlogPost :: "database \<Rightarrow> BlogPost \<Rightarrow> error + database" where
  "commit_add_BlogPost d new_post =
     (if list_ex (\<lambda>p. BlogPost_title p = BlogPost_title new_post) (blog_posts d)
      then Inl IntegrityError
      else Inr (d\<lparr>blog_posts := blog_posts d @ [new_post]\<rparr>))"

definition commit_update_BlogPost :: "database \<Rightarrow> BlogPost \<Rightarrow> error + database" where
  "commit_update_BlogPost d post =
     (if list_ex (\<lambda>p. BlogPost_id p \<noteq> BlogPost_id post \<and> BlogPost_title p = BlogPost_title post)
           (blog_posts d)
      then Inl IntegrityError
      else Inr (d\<lparr>blog_posts :=
             map (\<lambda>p. if BlogPost_id p = BlogPost_id post then post else p) (blog_posts d)\<rparr>))"

definition commit_delete_BlogPost :: "database \<Rightarrow> BlogPost \<Rightarrow> error + database" where
  "commit_delete_BlogPost d post =
     (if list_ex (\<lambda>c. Comment_parent_post_id c = BlogPost_id post) (comments d)
      then Inl IntegrityError
      else Inr (d\<lparr>blog_posts := filter (\<lambda>p. BlogPost_id p \<noteq> BlogPost_id post) (blog_posts d)\<rparr>))"

definition commit_add_Comment :: "database \<Rightarrow> Comment \<Rightarrow> database" where
  "commit_add_Comment d new_comment = d\<lparr>comments := comments d @ [new_comment]\<rparr>"

definition commit_delete_Comment :: "database \<Rightarrow> Comment \<Rightarrow> database" where
  "commit_delete_Comment d comment =
     d\<lparr>comments := filter (\<lambda>c. Comment_id c \<noteq> Comment_id comment) (comments d)\<rparr>"

subsection \<open>Forms (\<^verbatim>\<open>forms.py\<close>)\<close>

datatype http_method = GET | POST

text \<open>
  A request carries its method, whether its CSRF token is the one \<^verbatim>\<open>FlaskForm\<close> expects,
  and the submitted fields. For the two forms that are built with no stored values
  (\<^verbatim>\<open>RegisterForm()\<close>, \<^verbatim>\<open>CommentForm()\<close>) a field that was not sent has no data, which
  \<^verbatim>\<open>DataRequired\<close> refuses as it refuses the empty string; it is kept as the empty string.
\<close>

record 'f request =
  request_method :: http_method
  csrf_token_ok :: bool
  request_form :: 'f

text \<open>
  \<open>CreatePostForm\<close> is the data of the form's fields once the form object is built;
  \<open>CreatePostForm_formdata\<close> is what the request sent for them (\<open>None\<close>: the field is
  not in the request).
\<close>

record CreatePostForm =
  title :: string
  subtitle :: string
  img_url :: string
  body :: string

record CreatePostForm_formdata =
  formdata_title :: "string option"
  formdata_subtitle :: "string option"
  formdata_img_url :: "string option"
  formdata_body :: "string option"

record RegisterForm =
  email :: string
  password :: string
  name :: string

record CommentForm =
  comment :: string

text \<open>Python's \<^verbatim>\<open>str.isspace\<close> on the characters below 256.\<close>

definition isspace :: "char \<Rightarrow> bool" where
  "isspace c = (let n = (of_char c :: nat) in
     (9 \<le> n \<and> n \<le> 13) \<or> (28 \<le> n \<and> n \<le> 32) \<or> n = 133 \<or> n = 160)"

text \<open>\<^verbatim>\<open>DataRequired\<close>: the field's data is not empty once stripped of whitespace.\<close>

definition DataRequired :: "string \<Rightarrow> bool" where
  "DataRequired data = list_ex (\<lambda>c. \<not> isspace c) data"

definition is_submitted :: "'f request \<Rightarrow> bool" where
  "is_submitted req = (request_method req = POST)"

text \<open>
  Building the form object, \<^verbatim>\<open>CreatePostForm(title=..., subtitle=..., img_url=..., body=...)\<close>:
  each field starts from the value given for it (the first argument below). Flask-WTF
  hands the request's form data to the form only when the request is submitted, and then
  a field that the request sent takes the sent value, an empty one included, while a
  field that the request did not send keeps the value it started from.
\<close>

definition process_field :: "bool \<Rightarrow> string option \<Rightarrow> string \<Rightarrow> string" where
  "process_field submitted formdata data =
     (if submitted then (case formdata of None \<Rightarrow> data | Some v \<Rightarrow> v) else data)"

definition CreatePostForm_init ::
    "CreatePostForm \<Rightarrow> CreatePostForm_formdata request \<Rightarrow> CreatePostForm" where
  "CreatePostForm_init kwargs req =
     \<lparr>title = process_field (is_submitted req) (formdata_title (request_form req)) (title kwargs),
      subtitle = process_field (is_submitted req) (formdata_subtitle (request_form req))
                   (subtitle kwargs),
      img_url = process_field (is_submitted req) (formdata_img_url (request_form req))
                  (img_url kwargs),
      body = process_field (is_submitted req) (formdata_body (request_form req)) (body kwargs)\<rparr>"

text \<open>
  \<^verbatim>\<open>CreatePostForm()\<close> with no values given: the fields start with no data, kept as the
  empty string (\<^verbatim>\<open>DataRequired\<close> refuses both, and the data is read only after validation).
\<close>

definition CreatePostForm_no_kwargs :: CreatePostForm where
  "CreatePostForm_no_kwargs = \<lparr>title = [], subtitle = [], img_url = [], body = []\<rparr>"

text \<open>
  \<^verbatim>\<open>form.validate_on_submit()\<close> for each form class. The \<^verbatim>\<open>URL()\<close> validator of
  WTForms is a parameter of the model.
\<close>

definition CreatePostForm_validate_on_submit ::
    "(string \<Rightarrow> bool) \<Rightarrow> CreatePostForm_formdata request \<Rightarrow> CreatePostForm \<Rightarrow> bool" where
  "CreatePostForm_validate_on_submit URL req form =
     (is_submitted req \<and> csrf_token_ok req \<and>
      DataRequired (title form) \<and>
      DataRequired (subtitle form) \<and>
      DataRequired (img_url form) \<and> URL (img_url form) \<and>
      DataRequired (body form))"

definition RegisterForm_validate_on_submit :: "RegisterForm request \<Rightarrow> bool" where
  "RegisterForm_validate_on_submit req =
     (is_submitted req \<and> csrf_token_ok req \<and>
      DataRequired (email (request_form req)) \<and>
      DataRequired (password (request_form req)) \<and>
      DataRequired (name (request_form req)))"

definition CommentForm_validate_on_submit :: "CommentForm request \<Rightarrow> bool" where
  "CommentForm_validate_on_submit req =
     (is_submitted req \<and> csrf_token_ok req \<and> DataRequired (comment (request_form req)))"

subsection \<open>Decorators (\<^verbatim>\<open>app.py\<close>, lines 81-98)\<close>

definition admin_only :: "(app \<Rightarrow> 'a \<Rightarrow> outcome) \<Rightarrow> app \<Rightarrow> 'a \<Rightarrow> outcome" where
  "admin_only f st args =
     (case current_user_id (current_user st) of
        Inl e \<Rightarrow> (Inl e, st)
      | Inr uid \<Rightarrow> if uid \<noteq> 1 then (Inl (abort 403), st) else f st args)"

text \<open>
  The query of \<open>only_commenter\<close> selects the comments whose author is the current user
  and takes the first; \<^verbatim>\<open>user.comment_author_id\<close> on \<^verbatim>\<open>None\<close> is an
  \<open>AttributeError\<close>. \<^verbatim>\<open>current_user.id\<close> is read first, to build the query.
\<close>

definition only_commenter :: "(app \<Rightarrow> 'a \<Rightarrow> outcome) \<Rightarrow> app \<Rightarrow> 'a \<Rightarrow> outcome" where
  "only_commenter f st args =
     (case current_user_id (current_user st) of
        Inl e \<Rightarrow> (Inl e, st)
      | Inr uid \<Rightarrow>
          let user = scalar (filter (\<lambda>c. Comment_comment_author_id c = uid) (comments (db st)))
          in if \<not> is_authenticated (current_user st) then (Inl (abort 403), st)
             else (case user of
                     None \<Rightarrow> (Inl AttributeError, st)
                   | Some c \<Rightarrow>
                       if uid \<noteq> Comment_comment_author_id c then (Inl (abort 403), st)
                       else f st args))"

subsection \<open>Route handlers\<close>

text \<open>
  \<^verbatim>\<open>generate_password_hash\<close> draws a random salt; the hash function with the salt drawn
  is a parameter of \<open>register\<close>.
\<close>

definition register :: "(string \<Rightarrow> string) \<Rightarrow> app \<Rightarrow> RegisterForm request \<Rightarrow> outcome" where
  "register generate_password_hash st req =
     (let form = request_form req in
      if RegisterForm_validate_on_submit req then
        (case scalar (filter (\<lambda>u. User_email u = email form) (users (db st))) of
           Some user \<Rightarrow>
             (redirect url_for_login [], flash ''A user with that email already exists.'' st)
         | None \<Rightarrow>
             let new_user = \<lparr>User_id = next_id (map User_id (users (db st))),
                             User_email = email form,
                             User_password = generate_password_hash (password form),
                             User_name = name form\<rparr>
             in (case commit_add_User (db st) new_user of
                   Inl e \<Rightarrow> (Inl e, st)
                 | Inr d \<Rightarrow>
                     (redirect url_for_get_all_posts [],
                      st\<lparr>db := d, current_user := LoggedIn new_user\<rparr>)))
      else (Inr (render_template ''register.html'' (is_authenticated (current_user st))), st))"

definition show_post :: "app \<Rightarrow> int \<Rightarrow> CommentForm request \<Rightarrow> outcome" where
  "show_post st post_id req =
     (case get_or_404 (blog_posts (db st)) BlogPost_id post_id of
        Inl e \<Rightarrow> (Inl e, st)
      | Inr requested_post \<Rightarrow>
          if CommentForm_validate_on_submit req then
            (if \<not> is_authenticated (current_user st) then
               (redirect url_for_login [], flash ''You must login or register to comment.'' st)
             else
               (case current_user_id (current_user st) of
                  Inl e \<Rightarrow> (Inl e, st)
                | Inr uid \<Rightarrow>
                    let new_comment = \<lparr>Comment_id = next_id (map Comment_id (comments (db st))),
                                       Comment_text = comment (request_form req),
                                       Comment_comment_author_id = uid,
                                       Comment_parent_post_id = BlogPost_id requested_post\<rparr>
                    in (Inr (render_template ''post.html'' True),
                        st\<lparr>db := commit_add_Comment (db st) new_comment\<rparr>)))
          else (Inr (render_template ''post.html'' (is_authenticated (current_user st))), st))"

text \<open>\<open>today\<close> is \<^verbatim>\<open>date.today().strftime("%B %d, %Y")\<close> at the time of the request.\<close>

definition add_new_post ::
    "(string \<Rightarrow> bool) \<Rightarrow> string \<Rightarrow> app \<Rightarrow> CreatePostForm_formdata request \<Rightarrow> outcome" where
  "add_new_post URL today =
     admin_only (\<lambda>st req.
       let form = CreatePostForm_init CreatePostForm_no_kwargs req in
       if CreatePostForm_validate_on_submit URL req form then
         (case current_user_id (current_user st) of
            Inl e \<Rightarrow> (Inl e, st)
          | Inr uid \<Rightarrow>
              let new_post = \<lparr>BlogPost_id = next_id (map BlogPost_id (blog_posts (db st))),
                              BlogPost_title = title form,
                              BlogPost_subtitle = subtitle form,
                              BlogPost_date = today,
                              BlogPost_body = body form,
                              BlogPost_author_id = uid,
                              BlogPost_img_url = img_url form\<rparr>
              in (case commit_add_BlogPost (db st) new_post of
                    Inl e \<Rightarrow> (Inl e, st)
                  | Inr d \<Rightarrow> (redirect url_for_get_all_posts [], st\<lparr>db := d\<rparr>)))
       else (Inr (render_template ''make-post.html'' (is_authenticated (current_user st))), st))"

text \<open>
  The edit form is built from the stored post (\<^verbatim>\<open>app.py\<close>, lines 226-232); the keyword
  \<^verbatim>\<open>author\<close> names no field of the form and is ignored.
\<close>

definition edit_post ::
    "(string \<Rightarrow> bool) \<Rightarrow> app \<Rightarrow> int \<times> CreatePostForm_formdata request \<Rightarrow> outcome" where
  "edit_post URL =
     admin_only (\<lambda>st (post_id, req).
       case get_or_404 (blog_posts (db st)) BlogPost_id post_id of
         Inl e \<Rightarrow> (Inl e, st)
       | Inr post \<Rightarrow>
           let edit_form = CreatePostForm_init
                 \<lparr>title = BlogPost_title post,
                  subtitle = BlogPost_subtitle post,
                  img_url = BlogPost_img_url post,
                  body = BlogPost_body post\<rparr> req in
           if CreatePostForm_validate_on_submit URL req edit_form then
             (case current_user_id (current_user st) of
                Inl e \<Rightarrow> (Inl e, st)
              | Inr uid \<Rightarrow>
                  let post' = post\<lparr>BlogPost_title := title edit_form,
                                   BlogPost_subtitle := subtitle edit_form,
                                   BlogPost_img_url := img_url edit_form,
                                   BlogPost_author_id := uid,
                                   BlogPost_body := body edit_form\<rparr>
                  in (case commit_update_BlogPost (db st) post' of
                        Inl e \<Rightarrow> (Inl e, st)
                      | Inr d \<Rightarrow>
                          (redirect (url_for_show_post (BlogPost_id post')) [], st\<lparr>db := d\<rparr>)))
           else (Inr (render_template ''make-post.html'' (is_authenticated (current_user st))),
                 st))"

definition delete_post :: "app \<Rightarrow> int \<Rightarrow> outcome" where
  "delete_post st post_id =
     (case get_or_404 (blog_posts (db st)) BlogPost_id post_id of
        Inl e \<Rightarrow> (Inl e, st)
      | Inr post_to_delete \<Rightarrow>
          (case commit_delete_BlogPost (db st) post_to_delete of
             Inl e \<Rightarrow> (Inl e, st)
           | Inr d \<Rightarrow> (redirect url_for_get_all_posts [''logged_in''], st\<lparr>db := d\<rparr>)))"

text \<open>
  The two path segments of \<^verbatim>\<open>/delete_comment/<comment_id>/<post_id>\<close> are taken as the
  integers they denote; the handler's parameters are \<^verbatim>\<open>(post_id, comment_id)\<close>.
\<close>

definition delete_comment :: "app \<Rightarrow> int \<times> int \<Rightarrow> outcome" where
  "delete_comment =
     only_commenter (\<lambda>st (post_id, comment_id).
       case get_or_404 (comments (db st)) Comment_id comment_id of
         Inl e \<Rightarrow> (Inl e, st)
       | Inr comment_row \<Rightarrow>
           (redirect (url_for_show_post post_id) [],
            st\<lparr>db := commit_delete_Comment (db st) comment_row\<rparr>))"

subsection \<open>A small database for the concrete cases\<close>

text \<open>
  Three users (the first registered has id 1), two posts, and two comments under the
  first post: one by the second user and one by the third.
\<close>

definition admin :: User where
  "admin = \<lparr>User_id = 1, User_email = ''admin@x.com'', User_password = ''h1'',
            User_name = ''Admin''\<rparr>"

definition alice :: User where
  "alice = \<lparr>User_id = 2, User_email = ''a@x.com'', User_password = ''h2'',
            User_name = ''Alice''\<rparr>"

definition bob :: User where
  "bob = \<lparr>User_id = 3, User_email = ''b@x.com'', User_password = ''h3'',
          User_name = ''Bob''\<rparr>"

definition post1 :: BlogPost where
  "post1 = \<lparr>BlogPost_id = 1, BlogPost_title = ''First'', BlogPost_subtitle = ''one'',
            BlogPost_date = ''August 03, 2023'', BlogPost_body = ''Hello'',
            BlogPost_author_id = 1, BlogPost_img_url = ''http://x.com/1.png''\<rparr>"

definition post2 :: BlogPost where
  "post2 = \<lparr>BlogPost_id = 2, BlogPost_title = ''Second'', BlogPost_subtitle = ''two'',
            BlogPost_date = ''August 04, 2023'', BlogPost_body = ''Again'',
            BlogPost_author_id = 1, BlogPost_img_url = ''http://x.com/2.png''\<rparr>"

definition comment1 :: Comment where
  "comment1 = \<lparr>Comment_id = 1, Comment_text = ''hi'', Comment_comment_author_id = 2,
               Comment_parent_post_id = 1\<rparr>"

definition comment2 :: Comment where
  "comment2 = \<lparr>Comment_id = 2, Comment_text = ''yo'', Comment_comment_author_id = 3,
               Comment_parent_post_id = 1\<rparr>"

definition example_db :: database where
  "example_db = \<lparr>users = [admin, alice, bob], blog_posts = [post1, post2],
                 comments = [comment1, comment2]\<rparr>"

definition example_app :: "identity \<Rightarrow> app" where
  "example_app cu = \<lparr>db = example_db, current_user = cu, flashes = []\<rparr>"

definition post_request :: "'f \<Rightarrow> 'f request" where
  "post_request f = \<lparr>request_method = POST, csrf_token_ok = True, request_form = f\<rparr>"

definition get_request :: "'f \<Rightarrow> 'f request" where
  "get_request f = \<lparr>request_method = GET, csrf_token_ok = False, request_form = f\<rparr>"

definition new_title_form :: CreatePostForm_formdata where
  "new_title_form = \<lparr>formdata_title = Some ''Third'', formdata_subtitle = Some ''three'',
                     formdata_img_url = Some ''http://x.com/3.png'',
                     formdata_body = Some ''More''\<rparr>"

text \<open>A submission that sends the title and no other field.\<close>

definition title_only_form :: CreatePostForm_formdata where
  "title_only_form = \<lparr>formdata_title = Some ''Third'', formdata_subtitle = None,
                      formdata_img_url = None, formdata_body = None\<rparr>"

section \<open>Properties of the handlers\<close>

subsection \<open>Auxiliary facts\<close>

lemmas example_defs = admin_def alice_def bob_def post1_def post2_def comment1_def
  comment2_def example_db_def example_app_def post_request_def get_request_def
  new_title_form_def title_only_form_def

lemmas handler_defs = delete_comment_def only_commenter_def admin_only_def
  current_user_id_def is_authenticated_def scalar_def get_or_404_def redirect_def
  commit_delete_Comment_def commit_delete_BlogPost_def commit_update_BlogPost_def
  commit_add_BlogPost_def commit_add_User_def commit_add_Comment_def abort_def flash_def
  delete_post_def edit_post_def add_new_post_def show_post_def register_def
  CreatePostForm_validate_on_submit_def RegisterForm_validate_on_submit_def
  CommentForm_validate_on_submit_def is_submitted_def DataRequired_def isspace_def next_id_def
  process_field_def CreatePostForm_init_def CreatePostForm_no_kwargs_def

lemma find_Some_D: "find P xs = Some x \<Longrightarrow> P x \<and> x \<in> set xs"
  by (induction xs) (auto split: if_splits)

lemma get_or_404_find:
  "find (\<lambda>r. pk r = key) rows = Some r \<Longrightarrow> get_or_404 rows pk key = Inr r"
  by (simp add: get_or_404_def)

lemma get_or_404_exists:
  "list_ex (\<lambda>r. pk r = key) rows \<Longrightarrow> \<exists>r. get_or_404 rows pk key = Inr r \<and> pk r = key"
  by (cases "find (\<lambda>r. pk r = key) rows")
     (auto simp: get_or_404_def list_ex_iff find_None_iff dest: find_Some_D)

lemma redirect_no_kwargs: "redirect location [] = Inr (Redirect location)"
  by (simp add: redirect_def)

lemma redirect_logged_in: "redirect location [''logged_in''] = Inl TypeError"
  by (simp add: redirect_def)

lemma commit_delete_BlogPost_no_comments:
  assumes "\<not> list_ex (\<lambda>c. Comment_parent_post_id c = BlogPost_id p) (comments d)"
  shows "commit_delete_BlogPost d p =
           Inr (d\<lparr>blog_posts := filter (\<lambda>q. BlogPost_id q \<noteq> BlogPost_id p) (blog_posts d)\<rparr>)"
  using assms by (simp add: commit_delete_BlogPost_def)

subsection \<open>Deleting a comment\<close>

text \<open>
  The author of a comment passes the guard, because the guard's query finds at least that
  comment, and the handler then removes the rows with the requested key and nothing else.
\<close>

lemma delete_comment_by_author:
  assumes "current_user st = LoggedIn u"
    and "find (\<lambda>c. Comment_id c = comment_id) (comments (db st)) = Some c"
    and "Comment_comment_author_id c = User_id u"
  shows "delete_comment st (post_id, comment_id) =
           (Inr (Redirect (url_for_show_post post_id)),
            st\<lparr>db := (db st)\<lparr>comments :=
               filter (\<lambda>r. Comment_id r \<noteq> comment_id) (comments (db st))\<rparr>\<rparr>)"
proof -
  from assms(2) have c: "Comment_id c = comment_id" "c \<in> set (comments (db st))"
    by (auto dest: find_Some_D)
  then have "filter (\<lambda>r. Comment_comment_author_id r = User_id u) (comments (db st)) \<noteq> []"
    using assms(3) by (auto simp: filter_empty_conv)
  then obtain r rest where
    r: "filter (\<lambda>r. Comment_comment_author_id r = User_id u) (comments (db st)) = r # rest"
    by (cases "filter (\<lambda>r. Comment_comment_author_id r = User_id u) (comments (db st))") auto
  then have "r \<in> set (filter (\<lambda>r. Comment_comment_author_id r = User_id u) (comments (db st)))"
    by simp
  then have ra: "Comment_comment_author_id r = User_id u" by simp
  show ?thesis
    using assms(1) r ra c get_or_404_find [OF assms(2)]
    by (simp add: delete_comment_def only_commenter_def current_user_id_def
        is_authenticated_def scalar_def redirect_no_kwargs commit_delete_Comment_def)
qed

text \<open>
  Claim C1. A delete-comment request is refused with a forbidden response when the
  requester is not the author of the comment being deleted, and the author's own request
  removes exactly that comment. The second half holds (above). The first half fails on
  the code: the guard compares the requester with the author of the first comment that
  the requester wrote, not with the author of the comment named in the request. In the
  example database the second user, who wrote comment 1, asks for comment 2, written by
  the third user; the request is not refused, comment 2 is deleted and the response is the
  redirect to the post.
\<close>

theorem delete_comment_other_author_deleted:
  "Comment_comment_author_id comment2 \<noteq> User_id alice \<and>
   delete_comment (example_app (LoggedIn alice)) (1, 2) =
     (Inr (Redirect (url_for_show_post 1)),
      (example_app (LoggedIn alice))\<lparr>db := example_db\<lparr>comments := [comment1]\<rparr>\<rparr>)"
  by (simp add: example_defs handler_defs)

text \<open>
  Claim C8. For an authenticated identity that has written no comment, the guard's query
  returns no row, the guard reads \<^verbatim>\<open>comment_author_id\<close> of that absent row, and the
  delete-comment request ends in an attribute error, not in the forbidden response; the
  state is unchanged.
\<close>

theorem only_commenter_no_comment_attribute_error:
  assumes "current_user st = LoggedIn u"
    and "\<not> list_ex (\<lambda>c. Comment_comment_author_id c = User_id u) (comments (db st))"
  shows "scalar (filter (\<lambda>c. Comment_comment_author_id c = User_id u) (comments (db st))) = None \<and>
         delete_comment st (post_id, comment_id) = (Inl AttributeError, st)"
proof -
  have "filter (\<lambda>c. Comment_comment_author_id c = User_id u) (comments (db st)) = []"
    using assms(2) by (simp add: list_ex_iff filter_empty_conv)
  then show ?thesis
    using assms(1)
    by (simp add: delete_comment_def only_commenter_def current_user_id_def
        is_authenticated_def scalar_def)
qed

text \<open>The first user of the example database has written no comment.\<close>

theorem only_commenter_no_comment_attribute_error_witness:
  "scalar (filter (\<lambda>c. Comment_comment_author_id c = 1) [comment1, comment2]) = None \<and>
   delete_comment (example_app (LoggedIn admin)) (1, 1) =
     (Inl AttributeError, example_app (LoggedIn admin))"
proof -
  have a: "current_user (example_app (LoggedIn admin)) = LoggedIn admin"
    by (simp add: example_app_def)
  have b: "\<not> list_ex (\<lambda>c. Comment_comment_author_id c = User_id admin)
               (comments (db (example_app (LoggedIn admin))))"
    by (simp add: example_defs)
  show ?thesis
    using only_commenter_no_comment_attribute_error [OF a b, of 1 1]
    by (simp add: example_defs)
qed

subsection \<open>The administrator guard\<close>

text \<open>
  Claim C3. For a registered identity the guard of the privileged routes lets the request
  through to the handler exactly when the identity's id is 1, and answers forbidden for
  every other id; no other attribute of the identity is read.
\<close>

theorem admin_only_iff_id_1:
  assumes "current_user st = LoggedIn u"
  shows "admin_only f st args =
           (if User_id u = 1 then f st args else (Inl (HTTPException 403), st))"
  using assms by (simp add: admin_only_def current_user_id_def abort_def)

theorem admin_only_iff_id_1_witness:
  "admin_only (\<lambda>st args. (Inr (Redirect url_for_get_all_posts), st))
      (example_app (LoggedIn admin)) () =
     (Inr (Redirect url_for_get_all_posts), example_app (LoggedIn admin)) \<and>
   admin_only (\<lambda>st args. (Inr (Redirect url_for_get_all_posts), st))
      (example_app (LoggedIn (alice\<lparr>User_name := ''Admin''\<rparr>))) () =
     (Inl (HTTPException 403), example_app (LoggedIn (alice\<lparr>User_name := ''Admin''\<rparr>)))"
proof -
  have a: "current_user (example_app (LoggedIn admin)) = LoggedIn admin"
    by (simp add: example_app_def)
  have b: "current_user (example_app (LoggedIn (alice\<lparr>User_name := ''Admin''\<rparr>))) =
             LoggedIn (alice\<lparr>User_name := ''Admin''\<rparr>)"
    by (simp add: example_app_def)
  show ?thesis
    using admin_only_iff_id_1 [OF a, of "\<lambda>st args. (Inr (Redirect url_for_get_all_posts), st)" "()"]
      admin_only_iff_id_1 [OF b, of "\<lambda>st args. (Inr (Redirect url_for_get_all_posts), st)" "()"]
    by (simp add: admin_def alice_def)
qed

text \<open>
  A create-post request by a logged-in user whose id is not 1 is refused with a forbidden
  response and leaves the state as it was (no post is created), whatever the submitted
  form.
\<close>

lemma add_new_post_non_admin_forbidden:
  assumes "current_user st = LoggedIn u" and "User_id u \<noteq> 1"
  shows "add_new_post URL today st req = (Inl (HTTPException 403), st)"
  using assms by (simp add: add_new_post_def admin_only_def current_user_id_def abort_def)

lemma add_new_post_non_admin_forbidden_example:
  "add_new_post (\<lambda>url. True) ''November 04, 2026'' (example_app (LoggedIn alice))
       (post_request new_title_form) =
     (Inl (HTTPException 403), example_app (LoggedIn alice))"
proof -
  have a: "current_user (example_app (LoggedIn alice)) = LoggedIn alice"
    by (simp add: example_app_def)
  have b: "User_id alice \<noteq> 1"
    by (simp add: alice_def)
  show ?thesis
    using add_new_post_non_admin_forbidden [OF a b] by simp
qed

text \<open>
  Claim C4. Every create-post request by an identity that is not the administrator is
  refused with a forbidden response and creates no post, whatever the submitted form.
  This holds for every logged-in user other than the administrator (above). It fails on
  the code for the anonymous identity, which is not the administrator either: the guard
  compares \<^verbatim>\<open>current_user.id\<close> with 1 to decide on \<^verbatim>\<open>abort(403)\<close>, the anonymous
  identity has no \<^verbatim>\<open>id\<close>, and the request ends in an attribute error, not in the
  forbidden response. No post is created.
\<close>

theorem add_new_post_anonymous_not_forbidden:
  "add_new_post (\<lambda>url. True) ''November 04, 2026'' (example_app AnonymousUserMixin)
       (get_request new_title_form) =
     (Inl AttributeError, example_app AnonymousUserMixin) \<and>
   fst (add_new_post (\<lambda>url. True) ''November 04, 2026'' (example_app AnonymousUserMixin)
       (get_request new_title_form)) \<noteq> Inl (HTTPException 403)"
  by (simp add: example_defs handler_defs)

text \<open>
  Claim C9. With no identity authenticated, a request to the create-post route or to the
  edit-post route makes the guard read the \<^verbatim>\<open>id\<close> of the anonymous identity, which has
  none: the request ends in an attribute error, not in the forbidden response.
\<close>

theorem admin_only_anonymous_attribute_error:
  assumes "current_user st = AnonymousUserMixin"
  shows "add_new_post URL today st req = (Inl AttributeError, st) \<and>
         edit_post URL st (post_id, req') = (Inl AttributeError, st)"
  using assms by (simp add: add_new_post_def edit_post_def admin_only_def current_user_id_def)

theorem admin_only_anonymous_attribute_error_witness:
  "add_new_post (\<lambda>url. True) ''November 04, 2026'' (example_app AnonymousUserMixin)
       (post_request new_title_form) =
     (Inl AttributeError, example_app AnonymousUserMixin) \<and>
   edit_post (\<lambda>url. True) (example_app AnonymousUserMixin) (1, get_request new_title_form) =
     (Inl AttributeError, example_app AnonymousUserMixin)"
proof -
  have a: "current_user (example_app AnonymousUserMixin) = AnonymousUserMixin"
    by (simp add: example_app_def)
  show ?thesis
    using admin_only_anonymous_attribute_error [OF a] by simp
qed

subsection \<open>Deleting a post\<close>

text \<open>The handler consults no guard: whatever the request, the answer is never forbidden.\<close>

lemma delete_post_never_forbidden: "fst (delete_post st post_id) \<noteq> Inl (HTTPException 403)"
  by (simp add: delete_post_def get_or_404_def commit_delete_BlogPost_def abort_def
      redirect_def split: option.splits)

lemma delete_post_no_comments:
  assumes "list_ex (\<lambda>p. BlogPost_id p = post_id) (blog_posts (db st))"
    and "\<not> list_ex (\<lambda>c. Comment_parent_post_id c = post_id) (comments (db st))"
  shows "delete_post st post_id =
           (redirect url_for_get_all_posts [''logged_in''],
            st\<lparr>db := (db st)\<lparr>blog_posts :=
               filter (\<lambda>p. BlogPost_id p \<noteq> post_id) (blog_posts (db st))\<rparr>\<rparr>)"
proof -
  from get_or_404_exists [OF assms(1)] obtain p where
    p: "get_or_404 (blog_posts (db st)) BlogPost_id post_id = Inr p" "BlogPost_id p = post_id"
    by blast
  from assms(2) p(2) have
    "\<not> list_ex (\<lambda>c. Comment_parent_post_id c = BlogPost_id p) (comments (db st))"
    by simp
  from commit_delete_BlogPost_no_comments [OF this] p show ?thesis
    by (simp add: delete_post_def)
qed

text \<open>
  Claim C2, amended. For every existing post that no comment refers to, a delete-post
  request by any caller (authenticated or not, administrator or not) removes the post from
  the store, and no authorization predicate refuses it.
\<close>

theorem delete_post_any_caller:
  assumes "list_ex (\<lambda>p. BlogPost_id p = post_id) (blog_posts (db st))"
    and "\<not> list_ex (\<lambda>c. Comment_parent_post_id c = post_id) (comments (db st))"
  shows "blog_posts (db (snd (delete_post (st\<lparr>current_user := cu\<rparr>) post_id))) =
           filter (\<lambda>p. BlogPost_id p \<noteq> post_id) (blog_posts (db st)) \<and>
         \<not> list_ex (\<lambda>p. BlogPost_id p = post_id)
             (blog_posts (db (snd (delete_post (st\<lparr>current_user := cu\<rparr>) post_id)))) \<and>
         fst (delete_post (st\<lparr>current_user := cu\<rparr>) post_id) \<noteq> Inl (HTTPException 403)"
proof -
  have "delete_post (st\<lparr>current_user := cu\<rparr>) post_id =
          (redirect url_for_get_all_posts [''logged_in''],
           st\<lparr>current_user := cu, db := (db st)\<lparr>blog_posts :=
              filter (\<lambda>p. BlogPost_id p \<noteq> post_id) (blog_posts (db st))\<rparr>\<rparr>)"
    using delete_post_no_comments [of post_id "st\<lparr>current_user := cu\<rparr>"] assms by simp
  then show ?thesis
    by (simp add: redirect_logged_in list_ex_iff)
qed

theorem delete_post_any_caller_witness:
  "blog_posts (db (snd (delete_post (example_app AnonymousUserMixin) 2))) = [post1] \<and>
   \<not> list_ex (\<lambda>p. BlogPost_id p = 2)
       (blog_posts (db (snd (delete_post (example_app AnonymousUserMixin) 2)))) \<and>
   fst (delete_post (example_app AnonymousUserMixin) 2) \<noteq> Inl (HTTPException 403)"
proof -
  have a: "list_ex (\<lambda>p. BlogPost_id p = 2) (blog_posts (db (example_app (LoggedIn bob))))"
    by (simp add: example_defs)
  have b: "\<not> list_ex (\<lambda>c. Comment_parent_post_id c = 2)
               (comments (db (example_app (LoggedIn bob))))"
    by (simp add: example_defs)
  have c: "(example_app (LoggedIn bob))\<lparr>current_user := AnonymousUserMixin\<rparr> =
             example_app AnonymousUserMixin"
    by (simp add: example_app_def)
  have d: "filter (\<lambda>p. BlogPost_id p \<noteq> 2) (blog_posts (db (example_app (LoggedIn bob)))) =
             [post1]"
    by (simp add: example_defs)
  show ?thesis
    using delete_post_any_caller [OF a b, of AnonymousUserMixin] unfolding c d .
qed

text \<open>
  Claim C2 as stated fails at the first post of the example database, which has two
  comments: the request of an unauthenticated caller ends in an integrity error and the
  post is still in the store.
\<close>

theorem delete_post_with_comments_refused:
  "list_ex (\<lambda>p. BlogPost_id p = 1) (blog_posts (db (example_app AnonymousUserMixin))) \<and>
   delete_post (example_app AnonymousUserMixin) 1 =
     (Inl IntegrityError, example_app AnonymousUserMixin)"
  by (simp add: example_defs handler_defs)

text \<open>
  Claim C10, amended. For every delete-post request on an existing post that no comment
  refers to, the deletion is committed before the response is built; the handler then
  calls \<^verbatim>\<open>redirect\<close> with the keyword \<^verbatim>\<open>logged_in\<close>, which it does not accept, so the
  handler raises a type error and the post is removed all the same.
\<close>

theorem delete_post_commits_then_raises:
  assumes "list_ex (\<lambda>p. BlogPost_id p = post_id) (blog_posts (db st))"
    and "\<not> list_ex (\<lambda>c. Comment_parent_post_id c = post_id) (comments (db st))"
  shows "redirect url_for_get_all_posts [''logged_in''] = Inl TypeError \<and>
         delete_post st post_id =
           (Inl TypeError,
            st\<lparr>db := (db st)\<lparr>blog_posts :=
               filter (\<lambda>p. BlogPost_id p \<noteq> post_id) (blog_posts (db st))\<rparr>\<rparr>)"
  using delete_post_no_comments [OF assms] by (simp add: redirect_logged_in)

theorem delete_post_commits_then_raises_witness:
  "redirect url_for_get_all_posts [''logged_in''] = Inl TypeError \<and>
   delete_post (example_app (LoggedIn alice)) 2 =
     (Inl TypeError, (example_app (LoggedIn alice))\<lparr>db := example_db\<lparr>blog_posts := [post1]\<rparr>\<rparr>)"
proof -
  have a: "list_ex (\<lambda>p. BlogPost_id p = 2) (blog_posts (db (example_app (LoggedIn alice))))"
    by (simp add: example_defs)
  have b: "\<not> list_ex (\<lambda>c. Comment_parent_post_id c = 2)
               (comments (db (example_app (LoggedIn alice))))"
    by (simp add: example_defs)
  have d: "(db (example_app (LoggedIn alice)))\<lparr>blog_posts :=
             filter (\<lambda>p. BlogPost_id p \<noteq> 2) (blog_posts (db (example_app (LoggedIn alice))))\<rparr> =
           example_db\<lparr>blog_posts := [post1]\<rparr>"
    by (simp add: example_defs)
  show ?thesis
    using delete_post_commits_then_raises [OF a b] unfolding d .
qed

text \<open>
  Claim C10 as stated fails at the first post of the example database: the commit itself
  raises, the handler never reaches \<^verbatim>\<open>redirect\<close>, and both posts are still there.
\<close>

theorem delete_post_with_comments_keeps_post:
  "fst (delete_post (example_app (LoggedIn admin)) 1) \<noteq> Inl TypeError \<and>
   blog_posts (db (snd (delete_post (example_app (LoggedIn admin)) 1))) = [post1, post2]"
  by (simp add: example_defs handler_defs)

subsection \<open>Editing a post\<close>

text \<open>
  Claim C5, amended. For every successful edit-post request on an existing post, each of
  the title, subtitle, image URL and body of the post that the request submits is replaced
  by the submitted value, and each of them that the request does not submit keeps its
  value; the author becomes the identity performing the edit (the administrator); the id
  and the date of the post are unchanged, as is every other row, and the response is the
  redirect to the edited post. The form has no date field.
\<close>

theorem edit_post_effect:
  assumes "edit_post URL st (post_id, req) = (Inr (Redirect location), st')"
    and "find (\<lambda>p. BlogPost_id p = post_id) (blog_posts (db st)) = Some post"
  shows "\<exists>u. current_user st = LoggedIn u \<and> User_id u = 1 \<and>
           location = url_for_show_post post_id \<and>
           st' = st\<lparr>db := (db st)\<lparr>blog_posts :=
             map (\<lambda>p. if BlogPost_id p = post_id
                       then \<lparr>BlogPost_id = post_id,
                             BlogPost_title =
                               (case formdata_title (request_form req) of
                                  None \<Rightarrow> BlogPost_title post | Some v \<Rightarrow> v),
                             BlogPost_subtitle =
                               (case formdata_subtitle (request_form req) of
                                  None \<Rightarrow> BlogPost_subtitle post | Some v \<Rightarrow> v),
                             BlogPost_date = BlogPost_date post,
                             BlogPost_body =
                               (case formdata_body (request_form req) of
                                  None \<Rightarrow> BlogPost_body post | Some v \<Rightarrow> v),
                             BlogPost_author_id = User_id u,
                             BlogPost_img_url =
                               (case formdata_img_url (request_form req) of
                                  None \<Rightarrow> BlogPost_img_url post | Some v \<Rightarrow> v)\<rparr>
                       else p) (blog_posts (db st))\<rparr>\<rparr>"
proof -
  from assms(2) have g: "get_or_404 (blog_posts (db st)) BlogPost_id post_id = Inr post"
    and pid: "BlogPost_id post = post_id"
    by (auto simp: get_or_404_def dest: find_Some_D)
  obtain u where u: "current_user st = LoggedIn u"
    using assms(1)
    by (cases "current_user st") (auto simp: edit_post_def admin_only_def current_user_id_def)
  have sub: "is_submitted req"
    using assms(1) u g
    by (auto simp: edit_post_def admin_only_def current_user_id_def Let_def
        CreatePostForm_validate_on_submit_def split: if_splits)
  have pu: "post\<lparr>BlogPost_title := t, BlogPost_subtitle := s, BlogPost_img_url := i,
                  BlogPost_author_id := a, BlogPost_body := b\<rparr> =
            \<lparr>BlogPost_id = post_id, BlogPost_title = t, BlogPost_subtitle = s,
             BlogPost_date = BlogPost_date post, BlogPost_body = b, BlogPost_author_id = a,
             BlogPost_img_url = i\<rparr>" for t s i a b
    using pid by (cases post) simp
  have init: "CreatePostForm_init
                 \<lparr>title = BlogPost_title post, subtitle = BlogPost_subtitle post,
                  img_url = BlogPost_img_url post, body = BlogPost_body post\<rparr> req =
               \<lparr>title = (case formdata_title (request_form req) of
                           None \<Rightarrow> BlogPost_title post | Some v \<Rightarrow> v),
                subtitle = (case formdata_subtitle (request_form req) of
                              None \<Rightarrow> BlogPost_subtitle post | Some v \<Rightarrow> v),
                img_url = (case formdata_img_url (request_form req) of
                             None \<Rightarrow> BlogPost_img_url post | Some v \<Rightarrow> v),
                body = (case formdata_body (request_form req) of
                          None \<Rightarrow> BlogPost_body post | Some v \<Rightarrow> v)\<rparr>"
    using sub by (simp add: CreatePostForm_init_def process_field_def)
  show ?thesis
    using assms(1) u g pid
    by (auto simp: edit_post_def admin_only_def current_user_id_def abort_def Let_def
        commit_update_BlogPost_def redirect_def pu init split: if_splits)
qed

text \<open>
  The administrator edits the first post of the example database, dated August 03, 2023,
  with a submission that sends a new title and no other field: the edit succeeds, the
  title is the new one and the subtitle, body and image URL are the stored ones.
\<close>

theorem edit_post_effect_witness:
  "\<exists>u. current_user (example_app (LoggedIn admin)) = LoggedIn u \<and> User_id u = 1 \<and>
       url_for_show_post 1 = url_for_show_post 1 \<and>
       (example_app (LoggedIn admin))\<lparr>db := example_db\<lparr>blog_posts :=
         [\<lparr>BlogPost_id = 1, BlogPost_title = ''Third'', BlogPost_subtitle = ''one'',
           BlogPost_date = ''August 03, 2023'', BlogPost_body = ''Hello'',
           BlogPost_author_id = 1, BlogPost_img_url = ''http://x.com/1.png''\<rparr>,
          post2]\<rparr>\<rparr> =
       (example_app (LoggedIn admin))\<lparr>db := (db (example_app (LoggedIn admin)))\<lparr>blog_posts :=
             map (\<lambda>p. if BlogPost_id p = 1
                       then \<lparr>BlogPost_id = 1,
                             BlogPost_title = ''Third'',
                             BlogPost_subtitle = BlogPost_subtitle post1,
                             BlogPost_date = BlogPost_date post1,
                             BlogPost_body = BlogPost_body post1,
                             BlogPost_author_id = User_id u,
                             BlogPost_img_url = BlogPost_img_url post1\<rparr>
                       else p) (blog_posts (db (example_app (LoggedIn admin))))\<rparr>\<rparr>"
proof -
  have a: "edit_post (\<lambda>url. True) (example_app (LoggedIn admin))
             (1, post_request title_only_form) =
     (Inr (Redirect (url_for_show_post 1)),
      (example_app (LoggedIn admin))\<lparr>db := example_db\<lparr>blog_posts :=
         [\<lparr>BlogPost_id = 1, BlogPost_title = ''Third'', BlogPost_subtitle = ''one'',
           BlogPost_date = ''August 03, 2023'', BlogPost_body = ''Hello'',
           BlogPost_author_id = 1, BlogPost_img_url = ''http://x.com/1.png''\<rparr>,
          post2]\<rparr>\<rparr>)"
    by (simp add: example_defs handler_defs)
  have b: "find (\<lambda>p. BlogPost_id p = 1) (blog_posts (db (example_app (LoggedIn admin)))) =
             Some post1"
    by (simp add: example_defs)
  have f: "formdata_title (request_form (post_request title_only_form)) = Some ''Third''"
      "formdata_subtitle (request_form (post_request title_only_form)) = None"
      "formdata_body (request_form (post_request title_only_form)) = None"
      "formdata_img_url (request_form (post_request title_only_form)) = None"
    by (simp_all add: example_defs)
  show ?thesis
    using edit_post_effect [OF a b] unfolding f option.case .
qed

text \<open>
  Claim C5 as stated fails when the administrator edits that post with a submission of
  all four fields: the request succeeds, and the date of the edited post is the one it
  had before, which is none of the submitted values.
\<close>

theorem edit_post_keeps_date:
  "edit_post (\<lambda>url. True) (example_app (LoggedIn admin)) (1, post_request new_title_form) =
     (Inr (Redirect (url_for_show_post 1)),
      (example_app (LoggedIn admin))\<lparr>db := example_db\<lparr>blog_posts :=
         [\<lparr>BlogPost_id = 1, BlogPost_title = ''Third'', BlogPost_subtitle = ''three'',
           BlogPost_date = ''August 03, 2023'', BlogPost_body = ''More'',
           BlogPost_author_id = 1, BlogPost_img_url = ''http://x.com/3.png''\<rparr>,
          post2]\<rparr>\<rparr>) \<and>
   BlogPost_date post1 = ''August 03, 2023'' \<and>
   Some ''August 03, 2023'' \<notin> set [formdata_title new_title_form,
       formdata_subtitle new_title_form, formdata_img_url new_title_form,
       formdata_body new_title_form]"
  by (simp add: example_defs handler_defs)

text \<open>
  Submissions that the stored values do not rescue: a title sent empty replaces the stored
  title and fails validation, so the form is rendered again and nothing changes.
\<close>

lemma edit_post_empty_title_rendered:
  "edit_post (\<lambda>url. True) (example_app (LoggedIn admin))
       (1, post_request \<lparr>formdata_title = Some [], formdata_subtitle = None,
                         formdata_img_url = None, formdata_body = None\<rparr>) =
     (Inr (render_template ''make-post.html'' True), example_app (LoggedIn admin))"
  by (simp add: example_defs handler_defs)

subsection \<open>Registering with an email already present\<close>

text \<open>
  Claim C6, amended. For every register request whose email equals the email of an
  existing user, no user row is created and no row is changed (the database and the
  current identity are as before); when the submitted form validates, the response is the
  redirect to the login page and the message is flashed.
\<close>

theorem register_existing_email:
  assumes "list_ex (\<lambda>u. User_email u = email (request_form req)) (users (db st))"
  shows "db (snd (register generate_password_hash st req)) = db st \<and>
         current_user (snd (register generate_password_hash st req)) = current_user st \<and>
         (RegisterForm_validate_on_submit req \<longrightarrow>
            register generate_password_hash st req =
              (Inr (Redirect url_for_login),
               st\<lparr>flashes := flashes st @ [''A user with that email already exists.'']\<rparr>))"
proof -
  have "filter (\<lambda>u. User_email u = email (request_form req)) (users (db st)) \<noteq> []"
    using assms by (simp add: list_ex_iff filter_empty_conv)
  then obtain r rest where
    "filter (\<lambda>u. User_email u = email (request_form req)) (users (db st)) = r # rest"
    by (cases "filter (\<lambda>u. User_email u = email (request_form req)) (users (db st))") auto
  then show ?thesis
    by (simp add: register_def scalar_def redirect_def flash_def Let_def)
qed

theorem register_existing_email_witness:
  "db (snd (register (\<lambda>p. p) (example_app AnonymousUserMixin)
        (post_request \<lparr>email = ''a@x.com'', password = ''pw'', name = ''Alice''\<rparr>))) =
     example_db \<and>
   register (\<lambda>p. p) (example_app AnonymousUserMixin)
        (post_request \<lparr>email = ''a@x.com'', password = ''pw'', name = ''Alice''\<rparr>) =
     (Inr (Redirect url_for_login),
      (example_app AnonymousUserMixin)\<lparr>flashes :=
         [''A user with that email already exists.'']\<rparr>)"
proof -
  have a: "list_ex (\<lambda>u. User_email u = email (request_form
              (post_request \<lparr>email = ''a@x.com'', password = ''pw'', name = ''Alice''\<rparr>)))
            (users (db (example_app AnonymousUserMixin)))"
    by (simp add: example_defs)
  have v: "RegisterForm_validate_on_submit
             (post_request \<lparr>email = ''a@x.com'', password = ''pw'', name = ''Alice''\<rparr>)"
    by (simp add: example_defs handler_defs)
  show ?thesis
    using register_existing_email [OF a, of "\<lambda>p. p"] v
    by (simp add: example_app_def)
qed

text \<open>
  Claim C6 as stated fails for a submission with the email of the second user and an empty
  password: no row is created, but the response is the registration form, not a redirect.
\<close>

theorem register_invalid_form_rendered:
  "list_ex (\<lambda>u. User_email u = ''a@x.com'') (users (db (example_app AnonymousUserMixin))) \<and>
   register (\<lambda>p. p) (example_app AnonymousUserMixin)
       (post_request \<lparr>email = ''a@x.com'', password = [], name = ''Alice''\<rparr>) =
     (Inr (render_template ''register.html'' False), example_app AnonymousUserMixin)"
  by (simp add: example_defs handler_defs)

subsection \<open>Commenting while not authenticated\<close>

text \<open>
  Claim C7, amended. For every comment submission while no identity is authenticated, no
  comment row is created (the database is as before); when the post exists and the
  submitted form validates, the response is the redirect to the login page and the
  message is flashed.
\<close>

theorem show_post_anonymous_comment:
  assumes "current_user st = AnonymousUserMixin"
  shows "db (snd (show_post st post_id req)) = db st \<and>
         (list_ex (\<lambda>p. BlogPost_id p = post_id) (blog_posts (db st)) \<and>
          CommentForm_validate_on_submit req \<longrightarrow>
            show_post st post_id req =
              (Inr (Redirect url_for_login),
               st\<lparr>flashes := flashes st @ [''You must login or register to comment.'']\<rparr>))"
proof -
  have 1: "db (snd (show_post st post_id req)) = db st"
    using assms
    by (simp add: show_post_def is_authenticated_def flash_def split: sum.splits)
  have 2: "show_post st post_id req =
              (Inr (Redirect url_for_login),
               st\<lparr>flashes := flashes st @ [''You must login or register to comment.'']\<rparr>)"
    if "list_ex (\<lambda>p. BlogPost_id p = post_id) (blog_posts (db st))"
      and "CommentForm_validate_on_submit req"
  proof -
    from get_or_404_exists [OF that(1)] obtain p where
      "get_or_404 (blog_posts (db st)) BlogPost_id post_id = Inr p" by blast
    then show ?thesis
      using assms that(2)
      by (simp add: show_post_def is_authenticated_def flash_def redirect_def)
  qed
  from 1 2 show ?thesis by blast
qed

theorem show_post_anonymous_comment_witness:
  "db (snd (show_post (example_app AnonymousUserMixin) 1
             (post_request \<lparr>comment = ''hello''\<rparr>))) = example_db \<and>
   show_post (example_app AnonymousUserMixin) 1 (post_request \<lparr>comment = ''hello''\<rparr>) =
     (Inr (Redirect url_for_login),
      (example_app AnonymousUserMixin)\<lparr>flashes :=
         [''You must login or register to comment.'']\<rparr>)"
proof -
  have a: "current_user (example_app AnonymousUserMixin) = AnonymousUserMixin"
    by (simp add: example_app_def)
  have e: "list_ex (\<lambda>p. BlogPost_id p = 1) (blog_posts (db (example_app AnonymousUserMixin)))"
    by (simp add: example_defs)
  have v: "CommentForm_validate_on_submit (post_request \<lparr>comment = ''hello''\<rparr>)"
    by (simp add: example_defs handler_defs)
  show ?thesis
    using show_post_anonymous_comment [OF a, of 1 "post_request \<lparr>comment = ''hello''\<rparr>"] e v
    by (simp add: example_app_def)
qed

text \<open>
  Claim C7 as stated fails for an unauthenticated submission on the first post whose
  comment is empty, and for one whose CSRF token is not the expected one: the response
  is the post page, not a redirect.
\<close>

theorem show_post_invalid_comment_rendered:
  "show_post (example_app AnonymousUserMixin) 1 (post_request \<lparr>comment = []\<rparr>) =
     (Inr (render_template ''post.html'' False), example_app AnonymousUserMixin) \<and>
   show_post (example_app AnonymousUserMixin) 1
       \<lparr>request_method = POST, csrf_token_ok = False, request_form = \<lparr>comment = ''hello''\<rparr>\<rparr> =
     (Inr (render_template ''post.html'' False), example_app AnonymousUserMixin)"
  by (simp add: example_defs handler_defs)

end
